theory Spec2Isabelle
  imports Main "HOL-Library.Word"
begin

section \<open>Errors\<close>

text \<open>
  A Go \<open>error\<close> is an interface value: \<open>nil\<close> or a concrete error. Concrete errors are
  either opaque (identified by their message) or the \<open>*joinError\<close> built by the standard
  library's \<open>errors.Join\<close>, which wraps a list of errors.
\<close>

datatype err = Err string | joinError "err list"

type_synonym error = "err option"

text \<open>
  \<open>errors.Join(errs...)\<close> of the Go standard library: nil values are discarded, the result
  is nil when every value is nil, and otherwise a \<open>joinError\<close> wrapping the others in order.
\<close>

definition errors_Join :: "error list \<Rightarrow> error" where
  "errors_Join errs =
     (let es = List.map_filter (\<lambda>e. e) errs
      in if es = [] then None else Some (joinError es))"

text \<open>
  The opaque errors reachable from an error by unwrapping joins, in order: what
  \<open>errors.Is\<close> inspects and what the message of a joined error lists.
\<close>

fun leaves :: "err \<Rightarrow> err list" where
  "leaves (Err m) = [Err m]"
| "leaves (joinError es) = concat (map leaves es)"

definition error_leaves :: "error \<Rightarrow> err list" where
  "error_leaves e = (case e of None \<Rightarrow> [] | Some x \<Rightarrow> leaves x)"

section \<open>Contexts, providers and the call log\<close>

text \<open>
  Two contexts occur in the program: \<open>context.Background()\<close> and the context returned by
  \<open>signal.NotifyContext(context.Background(), os.Interrupt)\<close>.
\<close>

datatype "context" = Background | SignalCtx

text \<open>The four provider instances, named after the local variable that holds them.\<close>

datatype provider = TracerProvider | MeterProvider | PromMeterProvider | LoggerProvider

datatype factory =
  NewTraceProvider | NewMeterProvider | NewPrometheusMeterProvider | NewLoggerProvider

datatype exporter = Stdouttrace | Stdoutmetric | Prometheus | Stdoutlog

datatype propagator = TraceContext | Baggage | CompositeTextMapPropagator "propagator list"

text \<open>
  The outcome of the \<open>select\<close> in \<open>run\<close>: either the listener goroutine delivers the
  (always non-nil) result of \<open>ListenAndServe\<close> first, or the signal context is done first
  and the listener returns later (with \<open>http.ErrServerClosed\<close> once \<open>Shutdown\<close> is called).
\<close>

datatype race = SrvErrFirst err | CtxDoneFirst err

text \<open>
  Every call the program makes to a library operation, to a factory or to the shutdown
  closure is recorded, in order, together with what it returned where that is an error
  value.
\<close>

datatype event =
    SetTextMapPropagator propagator
  | Called factory
  | Printf string "err list"
  | SetTracerProvider provider
  | SetMeterProvider provider
  | SetLoggerProvider provider
  | ShutdownCalled "context"
  | ProviderShutdown provider "context" error
  | NotifyContext
  | Stop
  | GoListenAndServe
  | SelectSrvErr err
  | SelectCtxDone
  | SrvShutdown "context" error
  | Fatalln err

text \<open>
  The environment fixes what the external operations return: the four exporter
  constructors, each provider's \<open>Shutdown\<close> method (which may depend on the context and
  on everything that happened before), the race between listener and interrupt, and the
  server's \<open>Shutdown\<close>.
\<close>

record env =
  exporter_New :: "exporter \<Rightarrow> error"
  provider_Shutdown :: "provider \<Rightarrow> context \<Rightarrow> event list \<Rightarrow> error"
  select_case :: race
  srv_Shutdown :: "context \<Rightarrow> error"

text \<open>
  \<open>http.Handler\<close> values as the program builds them, and the fields of \<open>http.Server\<close>
  that it sets. A \<open>time.Duration\<close> is an \<open>int64\<close> count of nanoseconds.
\<close>

datatype handler =
    HandlerFunc string
  | WithRouteTag string handler
  | PromhttpHandler
  | ServeMux "(string \<times> handler) list"
  | OtelhttpHandler handler string

datatype listener = Listener string

record server =
  Addr :: string
  BaseContext :: "listener \<Rightarrow> context"
  ReadTimeout :: "64 word"
  WriteTimeout :: "64 word"
  Handler :: handler

text \<open>
  The mutable state: the call log, the slice \<open>shutdownFuncs\<close> captured by the closures of
  \<open>setupOTelSDK\<close> (method values, identified by their receiver), the process-wide
  provider slots of the \<open>otel\<close> and \<open>global\<close> packages, the buffer of the channel
  \<open>srvErr\<close>, and the server \<open>srv\<close> once \<open>run\<close> has built it.
\<close>

record world =
  events :: "event list"
  shutdownFuncs :: "provider list"
  globalTextMapPropagator :: "propagator option"
  globalTracerProvider :: "provider option"
  globalMeterProvider :: "provider option"
  globalLoggerProvider :: "provider option"
  srvErr :: "err list"
  httpServer :: "server option"

definition emit :: "event \<Rightarrow> world \<Rightarrow> world" where
  "emit e w = w\<lparr>events := events w @ [e]\<rparr>"

section \<open>The telemetry pipeline (setupOTelSDK and its factories)\<close>

definition newPropagator :: propagator where
  "newPropagator = CompositeTextMapPropagator [TraceContext, Baggage]"

definition newTraceProvider :: "env \<Rightarrow> world \<Rightarrow> (err + provider) \<times> world" where
  "newTraceProvider env w =
     (let w1 = emit (Called NewTraceProvider) w
      in case exporter_New env Stdouttrace of
           Some e \<Rightarrow> (Inl e, w1)
         | None \<Rightarrow> (Inr TracerProvider, w1))"

definition newMeterProvider :: "env \<Rightarrow> world \<Rightarrow> (err + provider) \<times> world" where
  "newMeterProvider env w =
     (let w1 = emit (Called NewMeterProvider) w
      in case exporter_New env Stdoutmetric of
           Some e \<Rightarrow> (Inl e, w1)
         | None \<Rightarrow> (Inr MeterProvider, w1))"

definition newLoggerProvider :: "env \<Rightarrow> world \<Rightarrow> (err + provider) \<times> world" where
  "newLoggerProvider env w =
     (let w1 = emit (Called NewLoggerProvider) w
      in case exporter_New env Stdoutlog of
           Some e \<Rightarrow> (Inl e, w1)
         | None \<Rightarrow> (Inr LoggerProvider, w1))"

definition newPrometheusMeterProvider :: "env \<Rightarrow> world \<Rightarrow> (err + provider) \<times> world" where
  "newPrometheusMeterProvider env w =
     (let w1 = emit (Called NewPrometheusMeterProvider) w
      in case exporter_New env Prometheus of
           Some e \<Rightarrow>
             (Inl e, emit (Printf ''Prometheus exporter creation failed: %v'' [e]) w1)
         | None \<Rightarrow>
             (Inr PromMeterProvider, emit (Printf ''Prometheus meter provider initialized'' []) w1))"

text \<open>Calling the method value \<open>p.Shutdown\<close> with a context.\<close>

definition call_Shutdown :: "env \<Rightarrow> provider \<Rightarrow> context \<Rightarrow> world \<Rightarrow> error \<times> world" where
  "call_Shutdown env p ctx w =
     (let r = provider_Shutdown env p ctx (events w)
      in (r, emit (ProviderShutdown p ctx r) w))"

text \<open>The loop \<open>for _, fn := range shutdownFuncs { err = errors.Join(err, fn(ctx)) }\<close>.\<close>

fun shutdown_range :: "env \<Rightarrow> context \<Rightarrow> provider list \<Rightarrow> error \<Rightarrow> world \<Rightarrow> error \<times> world" where
  "shutdown_range env ctx [] err w = (err, w)"
| "shutdown_range env ctx (fn # fns) err w =
     (let (r, w1) = call_Shutdown env fn ctx w
      in shutdown_range env ctx fns (errors_Join [err, r]) w1)"

text \<open>The closure \<open>shutdown\<close>: run the loop from a nil error, then \<open>shutdownFuncs = nil\<close>.\<close>

definition shutdown :: "env \<Rightarrow> context \<Rightarrow> world \<Rightarrow> error \<times> world" where
  "shutdown env ctx w =
     (let w0 = emit (ShutdownCalled ctx) w;
          (err, w1) = shutdown_range env ctx (shutdownFuncs w0) None w0
      in (err, w1\<lparr>shutdownFuncs := []\<rparr>))"

text \<open>
  The closure \<open>handleErr\<close>: it calls \<open>shutdown\<close> with the context that \<open>setupOTelSDK\<close>
  received and assigns the join to the named result \<open>err\<close>.
\<close>

definition handleErr :: "env \<Rightarrow> context \<Rightarrow> err \<Rightarrow> world \<Rightarrow> error \<times> world" where
  "handleErr env ctx inErr w =
     (let (r, w1) = shutdown env ctx w
      in (errors_Join [Some inErr, r], w1))"

definition register :: "provider \<Rightarrow> world \<Rightarrow> world" where
  "register p w = w\<lparr>shutdownFuncs := shutdownFuncs w @ [p]\<rparr>"

definition otel_SetTextMapPropagator :: "propagator \<Rightarrow> world \<Rightarrow> world" where
  "otel_SetTextMapPropagator p w =
     emit (SetTextMapPropagator p) (w\<lparr>globalTextMapPropagator := Some p\<rparr>)"

definition otel_SetTracerProvider :: "provider \<Rightarrow> world \<Rightarrow> world" where
  "otel_SetTracerProvider p w =
     emit (SetTracerProvider p) (w\<lparr>globalTracerProvider := Some p\<rparr>)"

definition otel_SetMeterProvider :: "provider \<Rightarrow> world \<Rightarrow> world" where
  "otel_SetMeterProvider p w =
     emit (SetMeterProvider p) (w\<lparr>globalMeterProvider := Some p\<rparr>)"

definition global_SetLoggerProvider :: "provider \<Rightarrow> world \<Rightarrow> world" where
  "global_SetLoggerProvider p w =
     emit (SetLoggerProvider p) (w\<lparr>globalLoggerProvider := Some p\<rparr>)"

text \<open>
  The function value returned through the named result \<open>shutdown\<close>: nil (\<open>None\<close>) until
  the func literal is assigned to it.
\<close>

datatype shutdown_func = ShutdownFunc

text \<open>
  \<open>setupOTelSDK\<close>: the result is the pair of named results \<open>(shutdown, err)\<close> and the
  world it leaves behind.
\<close>

definition setupOTelSDK ::
  "env \<Rightarrow> context \<Rightarrow> world \<Rightarrow> (shutdown_func option \<times> error) \<times> world" where
  "setupOTelSDK env ctx w =
     (let w0 = w\<lparr>shutdownFuncs := []\<rparr>;
          sd = Some ShutdownFunc;
          w1 = otel_SetTextMapPropagator newPropagator w0
      in case newTraceProvider env w1 of
        (Inl e, w2) \<Rightarrow> (let (err, w3) = handleErr env ctx e w2 in ((sd, err), w3))
      | (Inr tracerProvider, w2) \<Rightarrow>
        (let w3 = otel_SetTracerProvider tracerProvider (register tracerProvider w2)
         in case newMeterProvider env w3 of
           (Inl e, w4) \<Rightarrow> (let (err, w5) = handleErr env ctx e w4 in ((sd, err), w5))
         | (Inr meterProvider, w4) \<Rightarrow>
           (let w5 = otel_SetMeterProvider meterProvider (register meterProvider w4)
            in case newPrometheusMeterProvider env w5 of
              (Inl e, w6) \<Rightarrow> (let (err, w7) = handleErr env ctx e w6 in ((sd, err), w7))
            | (Inr promMeterProvider, w6) \<Rightarrow>
              (let w7 = otel_SetMeterProvider promMeterProvider
                          (register promMeterProvider w6)
               in case newLoggerProvider env w7 of
                 (Inl e, w8) \<Rightarrow> (let (err, w9) = handleErr env ctx e w8 in ((sd, err), w9))
               | (Inr loggerProvider, w8) \<Rightarrow>
                 (let w9 = global_SetLoggerProvider loggerProvider
                             (register loggerProvider w8)
                  in ((sd, None), w9))))))"

text \<open>
  Calling a function value: calling nil panics (\<open>None\<close>); calling the closure runs
  \<open>shutdown\<close> on the current \<open>shutdownFuncs\<close>.
\<close>

definition invoke ::
  "env \<Rightarrow> shutdown_func option \<Rightarrow> context \<Rightarrow> world \<Rightarrow> (error \<times> world) option" where
  "invoke env f ctx w =
     (case f of None \<Rightarrow> None | Some ShutdownFunc \<Rightarrow> Some (shutdown env ctx w))"

section \<open>The service runner (run and main)\<close>

definition time_Second :: "64 word" where
  "time_Second = 1000000000"

text \<open>\<open>mux.Handle\<close> and the local wrapper \<open>handleFunc\<close> of \<open>newHTTPHandler\<close>.\<close>

definition mux_Handle :: "string \<Rightarrow> handler \<Rightarrow> (string \<times> handler) list \<Rightarrow> (string \<times> handler) list" where
  "mux_Handle pattern h mux = mux @ [(pattern, h)]"

definition handleFunc :: "string \<Rightarrow> handler \<Rightarrow> (string \<times> handler) list \<Rightarrow> (string \<times> handler) list" where
  "handleFunc pattern handlerFunc mux = mux_Handle pattern (WithRouteTag pattern handlerFunc) mux"

definition newHTTPHandler :: handler where
  "newHTTPHandler =
     (let mux0 = [];
          mux1 = handleFunc ''/rolldice/'' (HandlerFunc ''rolldice'') mux0;
          mux2 = handleFunc ''/rolldice/{player}'' (HandlerFunc ''rolldice'') mux1;
          mux3 = mux_Handle ''/metrics'' PromhttpHandler mux2
      in OtelhttpHandler (ServeMux mux3) ''/'')"

text \<open>The composite literal \<open>&http.Server{...}\<close> of \<open>run\<close>, for the context \<open>ctx\<close>.\<close>

definition newServer :: "context \<Rightarrow> server" where
  "newServer ctx =
     \<lparr>Addr = '':8080'',
      BaseContext = (\<lambda>_. ctx),
      ReadTimeout = time_Second,
      WriteTimeout = 10 * time_Second,
      Handler = newHTTPHandler\<rparr>"

datatype 'a outcome = Return 'a | Panic

text \<open>
  \<open>run\<close>. The deferred calls run last-registered first: the deferred join with
  \<open>otelShutdown(context.Background())\<close> (registered only after a successful setup), then
  the deferred \<open>stop()\<close>. The goroutine and the \<open>select\<close> are resolved by the
  environment's \<open>select_case\<close>: when the listener's result arrives first it is received
  from the channel; when the context is done first, the listener's later result is sent
  to the buffered channel once \<open>srv.Shutdown\<close> is called and is never received.
\<close>

definition run :: "env \<Rightarrow> world \<Rightarrow> error outcome \<times> world" where
  "run env w =
     (let ctx = SignalCtx;
          w1 = emit NotifyContext w;
          ((otelShutdown, err), w2) = setupOTelSDK env ctx w1
      in if err \<noteq> None then (Return err, emit Stop w2)
         else
           (let srv = newServer ctx;
                w3 = emit GoListenAndServe (w2\<lparr>httpServer := Some srv, srvErr := []\<rparr>);
                (err1, w4) =
                  (case select_case env of
                     SrvErrFirst e \<Rightarrow> (Some e, emit (SelectSrvErr e) w3)
                   | CtxDoneFirst late \<Rightarrow>
                       (let w5 = emit Stop (emit SelectCtxDone w3);
                            r = srv_Shutdown env Background;
                            w6 = emit (SrvShutdown Background r) (w5\<lparr>srvErr := [late]\<rparr>)
                        in (r, w6)))
            in case invoke env otelShutdown Background w4 of
                 None \<Rightarrow> (Panic, emit Stop w4)
               | Some (r, w7) \<Rightarrow> (Return (errors_Join [err1, r]), emit Stop w7)))"

text \<open>
  \<open>main\<close>: the exit status of the process. \<open>log.Fatalln\<close> prints the error and exits
  with status 1; returning from \<open>main\<close> exits with 0; an unrecovered panic exits with 2.
\<close>

definition main :: "env \<Rightarrow> world \<Rightarrow> nat \<times> world" where
  "main env w =
     (case run env w of
        (Return None, w1) \<Rightarrow> (0, w1)
      | (Return (Some e), w1) \<Rightarrow> (1, emit (Fatalln e) w1)
      | (Panic, w1) \<Rightarrow> (2, w1))"

section \<open>Observations on the call log\<close>

text \<open>
  What a run did is read off the call log: which provider \<open>Shutdown\<close> methods were
  called, with which context and with what result, which factories were called, how often
  the shutdown closure and the server's \<open>Shutdown\<close> were entered, and which meter
  providers were installed in the global slot.
\<close>

definition shutdown_calls :: "event list \<Rightarrow> (provider \<times> context) list" where
  "shutdown_calls evs =
     List.map_filter (\<lambda>e. case e of ProviderShutdown p c r \<Rightarrow> Some (p, c) | _ \<Rightarrow> None) evs"

definition shutdown_results :: "event list \<Rightarrow> error list" where
  "shutdown_results evs =
     List.map_filter (\<lambda>e. case e of ProviderShutdown p c r \<Rightarrow> Some r | _ \<Rightarrow> None) evs"

definition factory_calls :: "event list \<Rightarrow> factory list" where
  "factory_calls evs =
     List.map_filter (\<lambda>e. case e of Called f \<Rightarrow> Some f | _ \<Rightarrow> None) evs"

definition drain_calls :: "event list \<Rightarrow> context list" where
  "drain_calls evs =
     List.map_filter (\<lambda>e. case e of ShutdownCalled c \<Rightarrow> Some c | _ \<Rightarrow> None) evs"

definition srv_shutdown_calls :: "event list \<Rightarrow> context list" where
  "srv_shutdown_calls evs =
     List.map_filter (\<lambda>e. case e of SrvShutdown c r \<Rightarrow> Some c | _ \<Rightarrow> None) evs"

definition meter_installs :: "event list \<Rightarrow> provider list" where
  "meter_installs evs =
     List.map_filter (\<lambda>e. case e of SetMeterProvider p \<Rightarrow> Some p | _ \<Rightarrow> None) evs"

definition no_Fatalln :: "event list \<Rightarrow> bool" where
  "no_Fatalln evs = list_all (\<lambda>ev. case ev of Fatalln e \<Rightarrow> False | _ \<Rightarrow> True) evs"

text \<open>
  The events that a call appended to the log.
\<close>

definition new_events :: "world \<Rightarrow> world \<Rightarrow> event list" where
  "new_events w w' = drop (length (events w)) (events w')"

text \<open>
  The four factories in the order in which \<open>setupOTelSDK\<close> calls them, the exporter
  constructor each one depends on, and the provider each one builds.
\<close>

definition factories :: "factory list" where
  "factories = [NewTraceProvider, NewMeterProvider, NewPrometheusMeterProvider, NewLoggerProvider]"

fun exporter_of :: "factory \<Rightarrow> exporter" where
  "exporter_of NewTraceProvider = Stdouttrace"
| "exporter_of NewMeterProvider = Stdoutmetric"
| "exporter_of NewPrometheusMeterProvider = Prometheus"
| "exporter_of NewLoggerProvider = Stdoutlog"

fun provider_of :: "factory \<Rightarrow> provider" where
  "provider_of NewTraceProvider = TracerProvider"
| "provider_of NewMeterProvider = MeterProvider"
| "provider_of NewPrometheusMeterProvider = PromMeterProvider"
| "provider_of NewLoggerProvider = LoggerProvider"

definition all_providers :: "provider list" where
  "all_providers = [TracerProvider, MeterProvider, PromMeterProvider, LoggerProvider]"

text \<open>
  Every exporter constructor succeeds.
\<close>

definition setup_ok :: "env \<Rightarrow> bool" where
  "setup_ok env = list_all (\<lambda>f. exporter_New env (exporter_of f) = None) factories"

section \<open>The logs of the straight-line paths\<close>

text \<open>
  The events appended by the loop of \<open>shutdown\<close> over the operations \<open>fs\<close>, when the
  log before the loop is \<open>h\<close>, and the error the loop accumulates from nil.
\<close>

fun range_log :: "env \<Rightarrow> context \<Rightarrow> provider list \<Rightarrow> event list \<Rightarrow> event list" where
  "range_log env ctx [] h = []"
| "range_log env ctx (p # ps) h =
     (let ev = ProviderShutdown p ctx (provider_Shutdown env p ctx h)
      in ev # range_log env ctx ps (h @ [ev]))"

definition drain_result :: "env \<Rightarrow> context \<Rightarrow> provider list \<Rightarrow> event list \<Rightarrow> error" where
  "drain_result env ctx fs h =
     foldl (\<lambda>a r. errors_Join [a, r]) None (shutdown_results (range_log env ctx fs h))"

text \<open>
  The events of \<open>setupOTelSDK\<close> up to and including the call of each factory, and of a
  complete successful setup.
\<close>

definition upto_trace :: "event list" where
  "upto_trace = [SetTextMapPropagator newPropagator, Called NewTraceProvider]"

definition upto_metric :: "event list" where
  "upto_metric = upto_trace @ [SetTracerProvider TracerProvider, Called NewMeterProvider]"

definition upto_prom :: "event list" where
  "upto_prom = upto_metric @ [SetMeterProvider MeterProvider, Called NewPrometheusMeterProvider]"

definition upto_logger :: "event list" where
  "upto_logger = upto_prom @ [Printf ''Prometheus meter provider initialized'' [],
                  SetMeterProvider PromMeterProvider, Called NewLoggerProvider]"

definition setup_log :: "event list" where
  "setup_log = upto_logger @ [SetLoggerProvider LoggerProvider]"

text \<open>
  The events of \<open>run\<close> after a successful setup, up to the entry of the deferred drain:
  when the listener's error arrives first, and when the signal context is done first.
\<close>

definition listener_log :: "err \<Rightarrow> event list" where
  "listener_log e =
     NotifyContext # setup_log @ [GoListenAndServe, SelectSrvErr e, ShutdownCalled Background]"

definition interrupt_log :: "env \<Rightarrow> event list" where
  "interrupt_log env =
     NotifyContext # setup_log @
     [GoListenAndServe, SelectCtxDone, Stop,
      SrvShutdown Background (srv_Shutdown env Background), ShutdownCalled Background]"

section \<open>A further interrupt\<close>

text \<open>
  \<open>signal.NotifyContext\<close> registers the program for \<open>os.Interrupt\<close>; the function \<open>stop\<close>
  it returns unregisters it. While the program is registered, a SIGINT is handed to the
  context: the first one makes the context done, a later one is dropped. Before the
  registration and after the first \<open>stop()\<close> the signal has its default disposition, and
  the runtime terminates the process.
\<close>

definition armed :: "event list \<Rightarrow> bool" where
  "armed evs = (NotifyContext \<in> set evs \<and> Stop \<notin> set evs)"

text \<open>
  How a process ends: \<open>run\<close> comes back with its result, or the process is terminated by
  the signal.
\<close>

datatype fate = Completed "error outcome" | Killed

text \<open>
  \<open>run\<close> when a further SIGINT is delivered at the moment at which the run has completed
  \<open>n\<close> of its calls. The program is sequential and the environment fixes what every call
  returns, so up to that moment the process has done what the run without the signal
  does: its log is the first \<open>n\<close> entries of that run's log. If the program is registered
  at that moment, or \<open>run\<close> is already through, the signal changes nothing; otherwise the
  process ends there, and what it has done is that prefix.
\<close>

definition run_sigint :: "nat \<Rightarrow> env \<Rightarrow> world \<Rightarrow> fate \<times> event list" where
  "run_sigint n env w =
     (let (res, w') = run env w;
          evs = new_events w w'
      in if n < length evs \<and> \<not> armed (take n evs) then (Killed, take n evs)
         else (Completed res, evs))"

text \<open>
  The number of calls a run with a successful setup has completed when its \<open>select\<close> has
  observed the done context (or the listener's error).
\<close>

definition select_point :: nat where
  "select_point = length (NotifyContext # setup_log @ [GoListenAndServe, SelectCtxDone])"

section \<open>Concrete environments\<close>

text \<open>
  A fresh process, and a registry holding three operations.
\<close>

definition world0 :: world where
  "world0 = \<lparr>events = [], shutdownFuncs = [], globalTextMapPropagator = None,
     globalTracerProvider = None, globalMeterProvider = None, globalLoggerProvider = None,
     srvErr = [], httpServer = None\<rparr>"

definition world_registered :: world where
  "world_registered = world0\<lparr>shutdownFuncs := [TracerProvider, MeterProvider, LoggerProvider]\<rparr>"

text \<open>
  An uneventful run ended by an interrupt; a run in which the Prometheus exporter cannot be
  built and the push meter provider fails to flush during the rollback; a run in which the
  listener cannot bind and two providers fail to flush during the final drain.
\<close>

definition env_clean :: env where
  "env_clean =
     \<lparr>exporter_New = (\<lambda>x. None),
      provider_Shutdown = (\<lambda>p c h. None),
      select_case = CtxDoneFirst (Err ''http: Server closed''),
      srv_Shutdown = (\<lambda>c. None)\<rparr>"

definition env_prom_fails :: env where
  "env_prom_fails =
     \<lparr>exporter_New = (\<lambda>x. if x = Prometheus then Some (Err ''duplicate collector'') else None),
      provider_Shutdown = (\<lambda>p c h. if p = MeterProvider then Some (Err ''flush failed'') else None),
      select_case = CtxDoneFirst (Err ''http: Server closed''),
      srv_Shutdown = (\<lambda>c. None)\<rparr>"

definition env_bind_fails :: env where
  "env_bind_fails =
     \<lparr>exporter_New = (\<lambda>x. None),
      provider_Shutdown = (\<lambda>p c h.
         if p = TracerProvider then Some (Err ''trace flush failed'')
         else if p = LoggerProvider then Some (Err ''log flush failed'')
         else None),
      select_case = SrvErrFirst (Err ''listen tcp :8080: bind: address already in use''),
      srv_Shutdown = (\<lambda>c. None)\<rparr>"

section \<open>Lemmas\<close>

subsection \<open>Joined errors and the drain loop\<close>

lemma map_filter_append: "List.map_filter f (xs @ ys) = List.map_filter f xs @ List.map_filter f ys"
  by (simp add: List.map_filter_def)

lemma error_leaves_Join2: "error_leaves (errors_Join [a, b]) = error_leaves a @ error_leaves b"
  by (cases a; cases b) (simp_all add: errors_Join_def error_leaves_def)

lemma errors_Join2_None: "errors_Join [a, b] = None \<longleftrightarrow> a = None \<and> b = None"
  by (cases a; cases b) (simp_all add: errors_Join_def)

lemma shutdown_range_eq:
  "shutdown_range env ctx fs err w =
     (foldl (\<lambda>a r. errors_Join [a, r]) err (shutdown_results (range_log env ctx fs (events w))),
      w\<lparr>events := events w @ range_log env ctx fs (events w)\<rparr>)"
proof (induction fs arbitrary: err w)
  case Nil
  show ?case by (simp add: shutdown_results_def)
next
  case (Cons p ps)
  show ?case
    by (simp add: Cons.IH call_Shutdown_def emit_def Let_def shutdown_results_def)
qed

lemma shutdown_calls_range_log: "shutdown_calls (range_log env ctx fs h) = map (\<lambda>p. (p, ctx)) fs"
  by (induction fs arbitrary: h) (simp_all add: shutdown_calls_def Let_def)

lemma factory_calls_range_log: "factory_calls (range_log env ctx fs h) = []"
  by (induction fs arbitrary: h) (simp_all add: factory_calls_def Let_def)

lemma drain_calls_range_log: "drain_calls (range_log env ctx fs h) = []"
  by (induction fs arbitrary: h) (simp_all add: drain_calls_def Let_def)

lemma srv_shutdown_calls_range_log: "srv_shutdown_calls (range_log env ctx fs h) = []"
  by (induction fs arbitrary: h) (simp_all add: srv_shutdown_calls_def Let_def)

lemma error_leaves_foldl_Join:
  "error_leaves (foldl (\<lambda>a r. errors_Join [a, r]) err rs) =
     error_leaves err @ concat (map error_leaves rs)"
  by (induction rs arbitrary: err) (simp_all add: error_leaves_Join2)

lemma foldl_Join_None:
  "foldl (\<lambda>a r. errors_Join [a, r]) err rs = None \<longleftrightarrow> err = None \<and> (\<forall>r \<in> set rs. r = None)"
  by (induction rs arbitrary: err) (auto simp: errors_Join2_None)

lemma shutdown_eq:
  "shutdown env ctx w =
     (foldl (\<lambda>a r. errors_Join [a, r]) None
        (shutdown_results (range_log env ctx (shutdownFuncs w) (events w @ [ShutdownCalled ctx]))),
      w\<lparr>events := events w @ ShutdownCalled ctx #
                    range_log env ctx (shutdownFuncs w) (events w @ [ShutdownCalled ctx]),
        shutdownFuncs := []\<rparr>)"
  by (simp add: shutdown_def shutdown_range_eq emit_def Let_def)

subsection \<open>Symbolic execution of setupOTelSDK\<close>

lemmas setup_defs =
  setupOTelSDK_def handleErr_def shutdown_eq newTraceProvider_def newMeterProvider_def
  newPrometheusMeterProvider_def newLoggerProvider_def register_def emit_def
  otel_SetTextMapPropagator_def otel_SetTracerProvider_def otel_SetMeterProvider_def
  global_SetLoggerProvider_def Let_def

lemmas path_defs = upto_trace_def upto_metric_def upto_prom_def upto_logger_def setup_log_def

lemma setup_fail_trace:
  assumes "exporter_New env Stdouttrace = Some e"
  shows "setupOTelSDK env ctx w =
    ((Some ShutdownFunc, errors_Join [Some e, None]),
     w\<lparr>events := events w @ upto_trace @ [ShutdownCalled ctx],
       shutdownFuncs := [],
       globalTextMapPropagator := Some newPropagator\<rparr>)"
  using assms by (simp add: setup_defs shutdown_results_def upto_trace_def)

lemma setup_fail_metric:
  assumes "exporter_New env Stdouttrace = None" "exporter_New env Stdoutmetric = Some e"
  shows "setupOTelSDK env ctx w =
    ((Some ShutdownFunc,
      errors_Join [Some e, drain_result env ctx [TracerProvider] (events w @ upto_metric @ [ShutdownCalled ctx])]),
     w\<lparr>events := events w @ upto_metric @ ShutdownCalled ctx #
                    range_log env ctx [TracerProvider] (events w @ upto_metric @ [ShutdownCalled ctx]),
       shutdownFuncs := [],
       globalTextMapPropagator := Some newPropagator,
       globalTracerProvider := Some TracerProvider\<rparr>)"
  using assms by (simp add: setup_defs drain_result_def path_defs del: range_log.simps(2))

lemma setup_fail_prom:
  assumes "exporter_New env Stdouttrace = None" "exporter_New env Stdoutmetric = None"
    "exporter_New env Prometheus = Some e"
  shows "setupOTelSDK env ctx w =
    ((Some ShutdownFunc,
      errors_Join [Some e, drain_result env ctx [TracerProvider, MeterProvider]
         (events w @ upto_prom @ [Printf ''Prometheus exporter creation failed: %v'' [e], ShutdownCalled ctx])]),
     w\<lparr>events := events w @ upto_prom @ Printf ''Prometheus exporter creation failed: %v'' [e] #
                    ShutdownCalled ctx #
                    range_log env ctx [TracerProvider, MeterProvider]
                      (events w @ upto_prom @ [Printf ''Prometheus exporter creation failed: %v'' [e], ShutdownCalled ctx]),
       shutdownFuncs := [],
       globalTextMapPropagator := Some newPropagator,
       globalTracerProvider := Some TracerProvider,
       globalMeterProvider := Some MeterProvider\<rparr>)"
  using assms by (simp add: setup_defs drain_result_def path_defs del: range_log.simps(2))

lemma setup_fail_log:
  assumes "exporter_New env Stdouttrace = None" "exporter_New env Stdoutmetric = None"
    "exporter_New env Prometheus = None" "exporter_New env Stdoutlog = Some e"
  shows "setupOTelSDK env ctx w =
    ((Some ShutdownFunc,
      errors_Join [Some e, drain_result env ctx [TracerProvider, MeterProvider, PromMeterProvider]
         (events w @ upto_logger @ [ShutdownCalled ctx])]),
     w\<lparr>events := events w @ upto_logger @ ShutdownCalled ctx #
                    range_log env ctx [TracerProvider, MeterProvider, PromMeterProvider]
                      (events w @ upto_logger @ [ShutdownCalled ctx]),
       shutdownFuncs := [],
       globalTextMapPropagator := Some newPropagator,
       globalTracerProvider := Some TracerProvider,
       globalMeterProvider := Some PromMeterProvider\<rparr>)"
  using assms by (simp add: setup_defs drain_result_def path_defs del: range_log.simps(2))

lemma setup_succeeds:
  assumes "exporter_New env Stdouttrace = None" "exporter_New env Stdoutmetric = None"
    "exporter_New env Prometheus = None" "exporter_New env Stdoutlog = None"
  shows "setupOTelSDK env ctx w =
    ((Some ShutdownFunc, None),
     w\<lparr>events := events w @ setup_log,
       shutdownFuncs := [TracerProvider, MeterProvider, PromMeterProvider, LoggerProvider],
       globalTextMapPropagator := Some newPropagator,
       globalTracerProvider := Some TracerProvider,
       globalMeterProvider := Some PromMeterProvider,
       globalLoggerProvider := Some LoggerProvider\<rparr>)"
  using assms by (simp add: setup_defs path_defs del: range_log.simps(2))

subsection \<open>Observations of the path logs\<close>

lemma shutdown_calls_append: "shutdown_calls (xs @ ys) = shutdown_calls xs @ shutdown_calls ys"
  by (simp add: shutdown_calls_def map_filter_append)

lemma shutdown_results_append: "shutdown_results (xs @ ys) = shutdown_results xs @ shutdown_results ys"
  by (simp add: shutdown_results_def map_filter_append)

lemma factory_calls_append: "factory_calls (xs @ ys) = factory_calls xs @ factory_calls ys"
  by (simp add: factory_calls_def map_filter_append)

lemma drain_calls_append: "drain_calls (xs @ ys) = drain_calls xs @ drain_calls ys"
  by (simp add: drain_calls_def map_filter_append)

lemma srv_shutdown_calls_append: "srv_shutdown_calls (xs @ ys) = srv_shutdown_calls xs @ srv_shutdown_calls ys"
  by (simp add: srv_shutdown_calls_def map_filter_append)

lemmas obs_append = shutdown_calls_append shutdown_results_append factory_calls_append
  drain_calls_append srv_shutdown_calls_append

lemma obs_Cons:
  "shutdown_calls (e # es) = shutdown_calls [e] @ shutdown_calls es"
  "shutdown_results (e # es) = shutdown_results [e] @ shutdown_results es"
  "factory_calls (e # es) = factory_calls [e] @ factory_calls es"
  "drain_calls (e # es) = drain_calls [e] @ drain_calls es"
  "srv_shutdown_calls (e # es) = srv_shutdown_calls [e] @ srv_shutdown_calls es"
  by (simp_all add: shutdown_calls_def shutdown_results_def factory_calls_def drain_calls_def
      srv_shutdown_calls_def split: option.splits)

lemma obs_logs:
  "shutdown_calls upto_trace = []" "shutdown_calls upto_metric = []" "shutdown_calls upto_prom = []"
  "shutdown_calls upto_logger = []" "shutdown_calls setup_log = []"
  "shutdown_results upto_trace = []" "shutdown_results upto_metric = []" "shutdown_results upto_prom = []"
  "shutdown_results upto_logger = []" "shutdown_results setup_log = []"
  "drain_calls upto_trace = []" "drain_calls upto_metric = []" "drain_calls upto_prom = []"
  "drain_calls upto_logger = []" "drain_calls setup_log = []"
  "srv_shutdown_calls upto_trace = []" "srv_shutdown_calls upto_metric = []" "srv_shutdown_calls upto_prom = []"
  "srv_shutdown_calls upto_logger = []" "srv_shutdown_calls setup_log = []"
  "factory_calls upto_trace = [NewTraceProvider]"
  "factory_calls upto_metric = [NewTraceProvider, NewMeterProvider]"
  "factory_calls upto_prom = [NewTraceProvider, NewMeterProvider, NewPrometheusMeterProvider]"
  "factory_calls upto_logger = [NewTraceProvider, NewMeterProvider, NewPrometheusMeterProvider, NewLoggerProvider]"
  "factory_calls setup_log = [NewTraceProvider, NewMeterProvider, NewPrometheusMeterProvider, NewLoggerProvider]"
  by (simp_all add: path_defs shutdown_calls_def shutdown_results_def factory_calls_def drain_calls_def
      srv_shutdown_calls_def)

lemma obs_single:
  "shutdown_calls [ShutdownCalled c] = []" "shutdown_results [ShutdownCalled c] = []"
  "factory_calls [ShutdownCalled c] = []" "drain_calls [ShutdownCalled c] = [c]"
  "srv_shutdown_calls [ShutdownCalled c] = []"
  "shutdown_calls [Printf m a] = []" "shutdown_results [Printf m a] = []"
  "factory_calls [Printf m a] = []" "drain_calls [Printf m a] = []"
  "srv_shutdown_calls [Printf m a] = []"
  by (simp_all add: shutdown_calls_def shutdown_results_def factory_calls_def drain_calls_def
      srv_shutdown_calls_def)

lemmas obs_range = shutdown_calls_range_log factory_calls_range_log drain_calls_range_log
  srv_shutdown_calls_range_log

lemma error_leaves_simps: "error_leaves None = []" "error_leaves (Some x) = leaves x"
  by (simp_all add: error_leaves_def)

lemma errors_Join_Some_ex: "\<exists>y. errors_Join [Some e, r] = Some y"
  using errors_Join2_None [of "Some e" r] by (cases "errors_Join [Some e, r]") simp_all

lemma error_leaves_drain_result:
  "error_leaves (drain_result env ctx fs h) =
     concat (map error_leaves (shutdown_results (range_log env ctx fs h)))"
  by (simp add: drain_result_def error_leaves_foldl_Join error_leaves_simps)

lemma setup_cases [case_names trace metric prom log ok]:
  obtains e where "exporter_New env Stdouttrace = Some e"
  | e where "exporter_New env Stdouttrace = None" "exporter_New env Stdoutmetric = Some e"
  | e where "exporter_New env Stdouttrace = None" "exporter_New env Stdoutmetric = None"
      "exporter_New env Prometheus = Some e"
  | e where "exporter_New env Stdouttrace = None" "exporter_New env Stdoutmetric = None"
      "exporter_New env Prometheus = None" "exporter_New env Stdoutlog = Some e"
  | "exporter_New env Stdouttrace = None" "exporter_New env Stdoutmetric = None"
      "exporter_New env Prometheus = None" "exporter_New env Stdoutlog = None"
  by (cases "exporter_New env Stdouttrace"; cases "exporter_New env Stdoutmetric";
      cases "exporter_New env Prometheus"; cases "exporter_New env Stdoutlog") auto

lemma setup_ok_iff:
  "setup_ok env \<longleftrightarrow> exporter_New env Stdouttrace = None \<and> exporter_New env Stdoutmetric = None \<and>
     exporter_New env Prometheus = None \<and> exporter_New env Stdoutlog = None"
  by (simp add: setup_ok_def factories_def)

lemma setup_err_None_iff: "snd (fst (setupOTelSDK env ctx w)) = None \<longleftrightarrow> setup_ok env"
proof (cases env rule: setup_cases)
  case (trace e)
  then show ?thesis using errors_Join_Some_ex [of e] by (auto simp: setup_fail_trace setup_ok_iff)
next
  case (metric e)
  then show ?thesis using errors_Join_Some_ex [of e] by (auto simp: setup_fail_metric setup_ok_iff)
next
  case (prom e)
  then show ?thesis using errors_Join_Some_ex [of e] by (auto simp: setup_fail_prom setup_ok_iff)
next
  case (log e)
  then show ?thesis using errors_Join_Some_ex [of e] by (auto simp: setup_fail_log setup_ok_iff)
next
  case ok
  then show ?thesis by (simp add: setup_succeeds setup_ok_iff)
qed

lemma foldl_Join_None_list_all:
  "foldl (\<lambda>a r. errors_Join [a, r]) None rs = None \<longleftrightarrow> list_all (\<lambda>x. x = None) rs"
  by (simp add: foldl_Join_None list_all_iff)

lemma meter_installs_setup_log: "meter_installs setup_log = [MeterProvider, PromMeterProvider]"
  by (simp add: path_defs meter_installs_def)

lemmas eval_defs =
  setupOTelSDK_def handleErr_def shutdown_def call_Shutdown_def newTraceProvider_def
  newMeterProvider_def newPrometheusMeterProvider_def newLoggerProvider_def register_def
  emit_def otel_SetTextMapPropagator_def otel_SetTracerProvider_def otel_SetMeterProvider_def
  global_SetLoggerProvider_def Let_def errors_Join_def error_leaves_def new_events_def
  shutdown_calls_def shutdown_results_def factory_calls_def drain_calls_def
  srv_shutdown_calls_def factories_def world0_def

subsection \<open>Symbolic execution of run and main\<close>

lemma run_setup_fails:
  assumes "\<not> setup_ok env"
  shows "run env w =
    (Return (snd (fst (setupOTelSDK env SignalCtx (emit NotifyContext w)))),
     emit Stop (snd (setupOTelSDK env SignalCtx (emit NotifyContext w))))"
  using assms setup_err_None_iff [of env SignalCtx "emit NotifyContext w"]
  by (simp add: run_def case_prod_beta Let_def)

lemma run_listener_error:
  assumes "setup_ok env" "select_case env = SrvErrFirst e"
  shows "run env w =
    (Return (errors_Join [Some e,
        drain_result env Background all_providers (events w @ listener_log e)]),
     w\<lparr>events := events w @ listener_log e @
                    range_log env Background all_providers (events w @ listener_log e) @ [Stop],
       shutdownFuncs := [],
       globalTextMapPropagator := Some newPropagator,
       globalTracerProvider := Some TracerProvider,
       globalMeterProvider := Some PromMeterProvider,
       globalLoggerProvider := Some LoggerProvider,
       srvErr := [],
       httpServer := Some (newServer SignalCtx)\<rparr>)"
proof -
  from assms(1) have ok: "exporter_New env Stdouttrace = None" "exporter_New env Stdoutmetric = None"
    "exporter_New env Prometheus = None" "exporter_New env Stdoutlog = None"
    by (simp_all add: setup_ok_iff)
  show ?thesis
    by (simp add: run_def setup_succeeds [OF ok] assms(2) invoke_def shutdown_eq emit_def Let_def
        drain_result_def listener_log_def all_providers_def del: range_log.simps(2))
qed

lemma run_interrupt:
  assumes "setup_ok env" "select_case env = CtxDoneFirst late"
  shows "run env w =
    (Return (errors_Join [srv_Shutdown env Background,
        drain_result env Background all_providers (events w @ interrupt_log env)]),
     w\<lparr>events := events w @ interrupt_log env @
                    range_log env Background all_providers (events w @ interrupt_log env) @ [Stop],
       shutdownFuncs := [],
       globalTextMapPropagator := Some newPropagator,
       globalTracerProvider := Some TracerProvider,
       globalMeterProvider := Some PromMeterProvider,
       globalLoggerProvider := Some LoggerProvider,
       srvErr := [late],
       httpServer := Some (newServer SignalCtx)\<rparr>)"
proof -
  from assms(1) have ok: "exporter_New env Stdouttrace = None" "exporter_New env Stdoutmetric = None"
    "exporter_New env Prometheus = None" "exporter_New env Stdoutlog = None"
    by (simp_all add: setup_ok_iff)
  show ?thesis
    by (simp add: run_def setup_succeeds [OF ok] assms(2) invoke_def shutdown_eq emit_def Let_def
        drain_result_def interrupt_log_def all_providers_def del: range_log.simps(2))
qed

lemma obs_run_logs:
  "shutdown_calls (listener_log e) = []" "shutdown_results (listener_log e) = []"
  "drain_calls (listener_log e) = [Background]" "srv_shutdown_calls (listener_log e) = []"
  "shutdown_calls (interrupt_log env) = []" "shutdown_results (interrupt_log env) = []"
  "drain_calls (interrupt_log env) = [Background]"
  "srv_shutdown_calls (interrupt_log env) = [Background]"
  by (simp_all add: listener_log_def interrupt_log_def path_defs shutdown_calls_def
      shutdown_results_def drain_calls_def srv_shutdown_calls_def)

lemma obs_Stop:
  "shutdown_calls [Stop] = []" "shutdown_results [Stop] = []" "drain_calls [Stop] = []"
  "srv_shutdown_calls [Stop] = []"
  by (simp_all add: shutdown_calls_def shutdown_results_def drain_calls_def srv_shutdown_calls_def)

lemma errors_Join_Some_None: "errors_Join [Some e, None] = Some (joinError [e])"
  by (simp add: errors_Join_def)

lemma drain_result_None_iff:
  "drain_result env ctx fs h = None \<longleftrightarrow>
     list_all (\<lambda>x. x = None) (shutdown_results (range_log env ctx fs h))"
  by (simp add: drain_result_def foldl_Join_None_list_all)

lemma no_Fatalln_append: "no_Fatalln (xs @ ys) \<longleftrightarrow> no_Fatalln xs \<and> no_Fatalln ys"
  by (simp add: no_Fatalln_def)

lemma no_Fatalln_range_log: "no_Fatalln (range_log env ctx fs h)"
  by (induction fs arbitrary: h) (simp_all add: no_Fatalln_def Let_def)

lemma no_Fatalln_logs: "no_Fatalln (interrupt_log env)" "no_Fatalln [Stop]"
  by (simp_all add: no_Fatalln_def interrupt_log_def path_defs)

lemma events_emit: "events (emit e w) = events w @ [e]"
  by (simp add: emit_def)

lemma main_eq:
  "main env w =
     (case fst (run env w) of
        Return None \<Rightarrow> (0, snd (run env w))
      | Return (Some e) \<Rightarrow> (1, emit (Fatalln e) (snd (run env w)))
      | Panic \<Rightarrow> (2, snd (run env w)))"
  by (simp add: main_def case_prod_beta)

lemmas run_eval_defs = run_def invoke_def main_def newServer_def time_Second_def eval_defs

lemma shutdownFuncs_world_registered:
  "shutdownFuncs world_registered = [TracerProvider, MeterProvider, LoggerProvider]"
  by (simp add: world_registered_def)

lemma env_clean_ok: "setup_ok env_clean"
  by (simp add: setup_ok_def factories_def env_clean_def)

lemma env_bind_fails_ok: "setup_ok env_bind_fails"
  by (simp add: setup_ok_def factories_def env_bind_fails_def)

subsection \<open>The interrupt path and a further interrupt\<close>

lemma run_interrupt_order:
  assumes "setup_ok env" and "select_case env = CtxDoneFirst late"
  shows "case run env w of (res, w') \<Rightarrow>
       (\<exists>before drained.
          new_events w w' =
            before @ [SelectCtxDone, Stop, SrvShutdown Background (srv_Shutdown env Background),
                      ShutdownCalled Background] @ drained @ [Stop]
        \<and> drain_calls before = [] \<and> shutdown_calls before = [] \<and> srv_shutdown_calls before = []
        \<and> shutdown_calls drained = map (\<lambda>p. (p, Background)) all_providers)
     \<and> drain_calls (new_events w w') = [Background]
     \<and> srv_shutdown_calls (new_events w w') = [Background]
     \<and> shutdown_calls (new_events w w') = map (\<lambda>p. (p, Background)) all_providers
     \<and> srvErr w' = [late]
     \<and> (case res of
          Panic \<Rightarrow> False
        | Return err \<Rightarrow>
            error_leaves err =
              error_leaves (srv_Shutdown env Background) @
              concat (map error_leaves (shutdown_results (new_events w w')))
          \<and> (err = None) =
              (srv_Shutdown env Background = None \<and>
               list_all (\<lambda>x. x = None) (shutdown_results (new_events w w'))))"
proof -
  let ?before = "NotifyContext # setup_log @ [GoListenAndServe]"
  let ?drained = "range_log env Background all_providers (events w @ interrupt_log env)"
  have split: "interrupt_log env @ ?drained @ [Stop] =
      ?before @ [SelectCtxDone, Stop, SrvShutdown Background (srv_Shutdown env Background),
                 ShutdownCalled Background] @ ?drained @ [Stop]"
    by (simp add: interrupt_log_def)
  have before: "drain_calls ?before = []" "shutdown_calls ?before = []"
    "srv_shutdown_calls ?before = []"
    by (simp_all add: path_defs drain_calls_def shutdown_calls_def srv_shutdown_calls_def)
  have ex: "\<exists>before drained.
          interrupt_log env @ ?drained @ [Stop] =
            before @ [SelectCtxDone, Stop, SrvShutdown Background (srv_Shutdown env Background),
                      ShutdownCalled Background] @ drained @ [Stop]
        \<and> drain_calls before = [] \<and> shutdown_calls before = [] \<and> srv_shutdown_calls before = []
        \<and> shutdown_calls drained = map (\<lambda>p. (p, Background)) all_providers"
    using split before shutdown_calls_range_log by blast
  show ?thesis
    unfolding run_interrupt [OF assms]
    using ex
    by (simp add: new_events_def obs_append obs_run_logs obs_Stop obs_range
        error_leaves_Join2 error_leaves_simps error_leaves_drain_result errors_Join2_None
        drain_result_None_iff del: range_log.simps(2))
qed

lemma length_range_log: "length (range_log env ctx fs h) = length fs"
  by (induction fs arbitrary: h) (simp_all add: Let_def)

lemma armed_take:
  assumes "Stop \<notin> set A"
  shows "armed (take n (NotifyContext # A @ Stop # B)) \<longleftrightarrow> 0 < n \<and> n \<le> Suc (length A)"
proof (cases n)
  case 0
  then show ?thesis by (simp add: armed_def)
next
  case (Suc m)
  show ?thesis
  proof (cases "m \<le> length A")
    case True
    with assms have "Stop \<notin> set (take m A)"
      by (meson in_set_takeD)
    with True Suc show ?thesis by (simp add: armed_def)
  next
    case False
    then obtain k where "m - length A = Suc k"
      by (cases "m - length A") auto
    with False Suc show ?thesis by (simp add: armed_def)
  qed
qed

lemma drain_calls_take: "length (drain_calls (take n xs)) \<le> length (drain_calls xs)"
proof -
  have "drain_calls xs = drain_calls (take n xs) @ drain_calls (drop n xs)"
    by (simp add: drain_calls_append [symmetric])
  then show ?thesis by simp
qed

lemma shutdown_calls_take:
  "distinct (map fst (shutdown_calls xs)) \<Longrightarrow> distinct (map fst (shutdown_calls (take n xs)))"
proof -
  assume d: "distinct (map fst (shutdown_calls xs))"
  have "shutdown_calls xs = shutdown_calls (take n xs) @ shutdown_calls (drop n xs)"
    by (simp add: shutdown_calls_append [symmetric])
  with d show ?thesis by simp
qed

lemma interrupt_full_log:
  assumes "setup_ok env" and "select_case env = CtxDoneFirst late"
  shows "new_events w (snd (run env w)) =
     interrupt_log env @ range_log env Background all_providers (events w @ interrupt_log env) @ [Stop]"
  by (simp add: run_interrupt [OF assms] new_events_def)

lemma interrupt_log_split:
  "interrupt_log env =
     NotifyContext # (setup_log @ [GoListenAndServe, SelectCtxDone]) @ Stop #
       [SrvShutdown Background (srv_Shutdown env Background), ShutdownCalled Background]"
  by (simp add: interrupt_log_def)

lemma no_Stop_before_select: "Stop \<notin> set (setup_log @ [GoListenAndServe, SelectCtxDone])"
  by (simp add: path_defs)

lemma drain_entered_after_srv_shutdown:
  assumes "drain_calls (take n (interrupt_log env @ rest)) \<noteq> []"
    and "srv_shutdown_calls rest = []"
  shows "srv_shutdown_calls (take n (interrupt_log env @ rest)) = [Background]"
proof (cases "n < length (interrupt_log env)")
  case True
  let ?pre = "NotifyContext # setup_log @ [GoListenAndServe, SelectCtxDone, Stop,
      SrvShutdown Background (srv_Shutdown env Background)]"
  have il: "interrupt_log env = ?pre @ [ShutdownCalled Background]"
    by (simp add: interrupt_log_def)
  have pre: "drain_calls ?pre = []"
    by (simp add: path_defs drain_calls_def)
  from True have n: "n \<le> length ?pre" by (simp add: il)
  have "take n (interrupt_log env @ rest) = take n (?pre @ ([ShutdownCalled Background] @ rest))"
    by (simp only: il append_assoc)
  also from n have "\<dots> = take n ?pre"
    by (subst take_append) simp
  finally have "take n (interrupt_log env @ rest) = take n ?pre" .
  moreover have "length (drain_calls (take n ?pre)) \<le> length (drain_calls ?pre)"
    by (rule drain_calls_take)
  ultimately show ?thesis using assms(1) pre by simp
next
  case False
  then have t: "take n (interrupt_log env @ rest) =
      interrupt_log env @ take (n - length (interrupt_log env)) rest"
    by simp
  have "srv_shutdown_calls rest =
      srv_shutdown_calls (take (n - length (interrupt_log env)) rest) @
      srv_shutdown_calls (drop (n - length (interrupt_log env)) rest)"
    by (simp add: srv_shutdown_calls_append [symmetric])
  with assms(2) have "srv_shutdown_calls (take (n - length (interrupt_log env)) rest) = []"
    by simp
  then show ?thesis
    unfolding t by (simp add: srv_shutdown_calls_append obs_run_logs)
qed

lemma run_env_clean:
  "fst (run env_clean world0) = Return None"
  "new_events world0 (snd (run env_clean world0)) =
       [NotifyContext, SetTextMapPropagator newPropagator, Called NewTraceProvider,
        SetTracerProvider TracerProvider, Called NewMeterProvider,
        SetMeterProvider MeterProvider, Called NewPrometheusMeterProvider,
        Printf ''Prometheus meter provider initialized'' [],
        SetMeterProvider PromMeterProvider, Called NewLoggerProvider,
        SetLoggerProvider LoggerProvider, GoListenAndServe, SelectCtxDone, Stop,
        SrvShutdown Background None, ShutdownCalled Background,
        ProviderShutdown TracerProvider Background None,
        ProviderShutdown MeterProvider Background None,
        ProviderShutdown PromMeterProvider Background None,
        ProviderShutdown LoggerProvider Background None, Stop]"
  by (simp_all add: run_eval_defs env_clean_def)

section \<open>The claims\<close>

text \<open>
  C1. Let the factory with index \<open>K\<close> (counted from 0 in \<open>factories\<close>: trace, push
  metric, pull metric, log) be the first whose exporter cannot be built. Then, in the events
  of the call of \<open>setupOTelSDK\<close>, the \<open>Shutdown\<close> methods of the providers of the
  factories before \<open>K\<close> are each called exactly once, in creation order and with the
  context \<open>setupOTelSDK\<close> received; the factories called are exactly those up to and
  including \<open>K\<close>; the shutdown closure is entered once; and the returned error is
  non-nil and wraps the construction failure followed by every error that those
  \<open>Shutdown\<close> calls returned.
\<close>

theorem setupOTelSDK_rollback:
  assumes K: "K < length factories"
    and ok: "list_all (\<lambda>f. exporter_New env (exporter_of f) = None) (take K factories)"
    and fail: "exporter_New env (exporter_of (factories ! K)) = Some e"
  shows "case setupOTelSDK env ctx w of ((sd, err), w') \<Rightarrow>
       shutdown_calls (new_events w w') = map (\<lambda>f. (provider_of f, ctx)) (take K factories)
     \<and> factory_calls (new_events w w') = take (Suc K) factories
     \<and> drain_calls (new_events w w') = [ctx]
     \<and> err \<noteq> None
     \<and> error_leaves err =
         leaves e @ concat (map error_leaves (shutdown_results (new_events w w')))"
proof -
  from K consider "K = 0" | "K = 1" | "K = 2" | "K = 3"
    by (auto simp: factories_def less_Suc_eq numeral_eq_Suc)
  then show ?thesis
  proof cases
    case 1
    with fail have f: "exporter_New env Stdouttrace = Some e" by (simp add: factories_def)
    show ?thesis
      unfolding setup_fail_trace [OF f] 1
      by (simp add: new_events_def obs_append obs_logs obs_single
          error_leaves_Join2 errors_Join_Some_ex error_leaves_simps factories_def)
  next
    case 2
    with ok fail have f: "exporter_New env Stdouttrace = None" "exporter_New env Stdoutmetric = Some e"
      by (simp_all add: factories_def)
    show ?thesis
      unfolding setup_fail_metric [OF f] 2
      by (simp add: new_events_def obs_append obs_Cons [of _ "range_log _ _ _ _"] obs_logs obs_single obs_range
          error_leaves_Join2 errors_Join_Some_ex error_leaves_simps error_leaves_drain_result factories_def
          del: range_log.simps(2))
  next
    case 3
    with ok fail have f: "exporter_New env Stdouttrace = None" "exporter_New env Stdoutmetric = None"
      "exporter_New env Prometheus = Some e"
      by (simp_all add: factories_def)
    show ?thesis
      unfolding setup_fail_prom [OF f] 3
      by (simp add: new_events_def obs_append obs_Cons [of _ "_ # _"] obs_Cons [of _ "range_log _ _ _ _"] obs_logs obs_single obs_range
          error_leaves_Join2 errors_Join_Some_ex error_leaves_simps error_leaves_drain_result factories_def
          del: range_log.simps(2))
  next
    case 4
    with ok fail have f: "exporter_New env Stdouttrace = None" "exporter_New env Stdoutmetric = None"
      "exporter_New env Prometheus = None" "exporter_New env Stdoutlog = Some e"
      by (simp_all add: factories_def)
    show ?thesis
      unfolding setup_fail_log [OF f] 4
      by (simp add: new_events_def obs_append obs_Cons [of _ "range_log _ _ _ _"] obs_logs obs_single obs_range
          error_leaves_Join2 errors_Join_Some_ex error_leaves_simps error_leaves_drain_result factories_def
          del: range_log.simps(2))
  qed
qed

text \<open>
  The same at a concrete run.
\<close>

theorem setupOTelSDK_rollback_witness:
  "shutdown_calls (new_events world0 (snd (setupOTelSDK env_prom_fails SignalCtx world0))) =
     [(TracerProvider, SignalCtx), (MeterProvider, SignalCtx)]
   \<and> factory_calls (new_events world0 (snd (setupOTelSDK env_prom_fails SignalCtx world0))) =
     [NewTraceProvider, NewMeterProvider, NewPrometheusMeterProvider]
   \<and> drain_calls (new_events world0 (snd (setupOTelSDK env_prom_fails SignalCtx world0))) =
     [SignalCtx]
   \<and> error_leaves (snd (fst (setupOTelSDK env_prom_fails SignalCtx world0))) =
     [Err ''duplicate collector'', Err ''flush failed'']"
proof -
  have K: "2 < length factories"
    by (simp add: factories_def)
  have ok: "list_all (\<lambda>f. exporter_New env_prom_fails (exporter_of f) = None) (take 2 factories)"
    by (simp add: factories_def env_prom_fails_def)
  have fail: "exporter_New env_prom_fails (exporter_of (factories ! 2)) =
      Some (Err ''duplicate collector'')"
    by (simp add: factories_def env_prom_fails_def)
  have res: "shutdown_results (new_events world0 (snd (setupOTelSDK env_prom_fails SignalCtx world0))) =
      [None, Some (Err ''flush failed'')]"
    by (simp add: eval_defs env_prom_fails_def)
  from setupOTelSDK_rollback [OF K ok fail, where ctx = SignalCtx and w = world0] show ?thesis
    by (simp add: case_prod_beta res error_leaves_simps factories_def)
qed

text \<open>
  C2. The shutdown closure calls every registered operation once, in registration order,
  each with the context the closure received, whatever the earlier operations returned.
  The error it returns wraps exactly the errors the operations returned, in order, and is
  nil only if every operation returned nil.
\<close>

theorem shutdown_fifo_joins_all:
  "case shutdown env ctx w of (r, w') \<Rightarrow>
       shutdown_calls (new_events w w') = map (\<lambda>fn. (fn, ctx)) (shutdownFuncs w)
     \<and> length (shutdown_results (new_events w w')) = length (shutdownFuncs w)
     \<and> error_leaves r = concat (map error_leaves (shutdown_results (new_events w w')))
     \<and> (r = None) = list_all (\<lambda>x. x = None) (shutdown_results (new_events w w'))"
proof -
  let ?log = "range_log env ctx (shutdownFuncs w) (events w @ [ShutdownCalled ctx])"
  have len: "length (shutdown_results ?log) = length (shutdown_calls ?log)"
    by (simp add: shutdown_results_def shutdown_calls_def List.map_filter_def)
       (rule arg_cong [where f = length], rule filter_cong, auto split: event.splits)
  show ?thesis
    by (simp add: shutdown_eq new_events_def obs_Cons [of _ "range_log _ _ _ _"] obs_single
        obs_range error_leaves_foldl_Join error_leaves_simps foldl_Join_None_list_all len
        del: range_log.simps(2))
qed

text \<open>
  The same at a concrete run.
\<close>

theorem shutdown_fifo_joins_all_witness:
  "shutdown_calls (new_events world_registered (snd (shutdown env_bind_fails Background world_registered))) =
     [(TracerProvider, Background), (MeterProvider, Background), (LoggerProvider, Background)]
   \<and> shutdown_results (new_events world_registered (snd (shutdown env_bind_fails Background world_registered))) =
     [Some (Err ''trace flush failed''), None, Some (Err ''log flush failed'')]
   \<and> error_leaves (fst (shutdown env_bind_fails Background world_registered)) =
     [Err ''trace flush failed'', Err ''log flush failed'']"
proof -
  have res: "shutdown_results (new_events world_registered
        (snd (shutdown env_bind_fails Background world_registered))) =
      [Some (Err ''trace flush failed''), None, Some (Err ''log flush failed'')]"
    by (simp add: eval_defs env_bind_fails_def world_registered_def)
  from shutdown_fifo_joins_all [where env = env_bind_fails and ctx = Background and w = world_registered] show ?thesis
    by (simp add: case_prod_beta res error_leaves_simps shutdownFuncs_world_registered)
qed

text \<open>
  C3. Of two consecutive calls of the shutdown closure, the first calls every registered
  operation and returns their joined errors and leaves \<open>shutdownFuncs\<close> empty; the second
  calls no operation and returns nil.
\<close>

theorem shutdown_twice:
  "case shutdown env ctx w of (r1, w1) \<Rightarrow>
     (case shutdown env ctx' w1 of (r2, w2) \<Rightarrow>
         shutdown_calls (new_events w w1) = map (\<lambda>fn. (fn, ctx)) (shutdownFuncs w)
       \<and> error_leaves r1 = concat (map error_leaves (shutdown_results (new_events w w1)))
       \<and> shutdownFuncs w1 = []
       \<and> new_events w1 w2 = [ShutdownCalled ctx']
       \<and> shutdown_calls (new_events w1 w2) = []
       \<and> r2 = None)"
  by (simp add: shutdown_eq new_events_def obs_Cons [of _ "range_log _ _ _ _"] obs_single
      obs_range error_leaves_foldl_Join error_leaves_simps shutdown_results_def
      del: range_log.simps(2))

text \<open>
  The same at a concrete run.
\<close>

theorem shutdown_twice_witness:
  "shutdown_calls (new_events world_registered (snd (shutdown env_bind_fails Background world_registered))) =
     [(TracerProvider, Background), (MeterProvider, Background), (LoggerProvider, Background)]
   \<and> fst (shutdown env_bind_fails Background (snd (shutdown env_bind_fails Background world_registered))) = None
   \<and> shutdown_calls (new_events (snd (shutdown env_bind_fails Background world_registered))
        (snd (shutdown env_bind_fails Background (snd (shutdown env_bind_fails Background world_registered))))) = []"
  using shutdown_twice [where env = env_bind_fails and ctx = Background and w = world_registered and ctx' = Background]
  by (simp add: case_prod_beta shutdownFuncs_world_registered obs_single)

text \<open>
  C4. After a successful setup, when the signal context is done before the listener
  reports an error: the select is followed at once by \<open>stop()\<close>, then by
  \<open>srv.Shutdown\<close>, and only after \<open>srv.Shutdown\<close> has returned is the shutdown closure
  entered; nothing before the select touches the drain or the server shutdown. In the run
  that no further signal cuts short the closure is entered exactly once and calls each of
  the four providers' \<open>Shutdown\<close> once; the listener's own result
  (\<open>http.ErrServerClosed\<close>) stays unreceived in the channel, and the error of \<open>run\<close> wraps
  only the result of \<open>srv.Shutdown\<close> and the errors of the drain, nil exactly when all of
  these are nil. A further SIGINT is not needed for any of this. Delivered while the
  program is still registered (up to the select) it changes nothing; delivered after the
  first \<open>stop()\<close> and before \<open>run\<close> is through (or before the registration) it terminates
  the process, which has then done exactly the calls completed so far. Whenever it
  arrives, the closure is entered at most once, no provider is shut down twice, and the
  closure is entered only after \<open>srv.Shutdown\<close> has returned.
\<close>

theorem run_interrupt_second_sigint:
  assumes "setup_ok env" and "select_case env = CtxDoneFirst late"
  shows "case run env w of (res, w') \<Rightarrow>
       (\<exists>before drained.
          new_events w w' =
            before @ [SelectCtxDone, Stop, SrvShutdown Background (srv_Shutdown env Background),
                      ShutdownCalled Background] @ drained @ [Stop]
        \<and> drain_calls before = [] \<and> shutdown_calls before = [] \<and> srv_shutdown_calls before = []
        \<and> shutdown_calls drained = map (\<lambda>p. (p, Background)) all_providers)
     \<and> drain_calls (new_events w w') = [Background]
     \<and> srv_shutdown_calls (new_events w w') = [Background]
     \<and> shutdown_calls (new_events w w') = map (\<lambda>p. (p, Background)) all_providers
     \<and> srvErr w' = [late]
     \<and> (case res of
          Panic \<Rightarrow> False
        | Return err \<Rightarrow>
            error_leaves err =
              error_leaves (srv_Shutdown env Background) @
              concat (map error_leaves (shutdown_results (new_events w w')))
          \<and> (err = None) =
              (srv_Shutdown env Background = None \<and>
               list_all (\<lambda>x. x = None) (shutdown_results (new_events w w'))))
     \<and> (case run_sigint n env w of (fate, evs) \<Rightarrow>
          (fate = Killed) =
            ((n = 0 \<or> select_point < n) \<and> n < length (new_events w w'))
        \<and> (case fate of
             Completed r \<Rightarrow> r = res \<and> evs = new_events w w'
           | Killed \<Rightarrow> evs = take n (new_events w w'))
        \<and> length (drain_calls evs) \<le> 1
        \<and> distinct (map fst (shutdown_calls evs))
        \<and> (drain_calls evs \<noteq> [] \<longrightarrow> srv_shutdown_calls evs = [Background]))"
proof -
  let ?rest = "range_log env Background all_providers (events w @ interrupt_log env) @ [Stop]"
  let ?full = "new_events w (snd (run env w))"
  have full: "?full = interrupt_log env @ ?rest"
    by (simp add: interrupt_full_log [OF assms])
  have full': "?full = NotifyContext # (setup_log @ [GoListenAndServe, SelectCtxDone]) @ Stop #
      ([SrvShutdown Background (srv_Shutdown env Background), ShutdownCalled Background] @ ?rest)"
    unfolding full interrupt_log_split by simp
  have armed: "armed (take n ?full) \<longleftrightarrow> 0 < n \<and> n \<le> select_point"
    unfolding full' using armed_take [OF no_Stop_before_select, of n]
    by (simp add: select_point_def)
  have dc: "drain_calls ?full = [Background]"
    and sc: "shutdown_calls ?full = map (\<lambda>p. (p, Background)) all_providers"
    and ssc: "srv_shutdown_calls ?full = [Background]"
    using run_interrupt_order [OF assms, of w] by (simp_all add: case_prod_beta)
  have rest: "srv_shutdown_calls ?rest = []"
    by (simp add: obs_append obs_range obs_Stop del: range_log.simps(2))
  have d1: "length (drain_calls (take n ?full)) \<le> 1"
    using drain_calls_take [of n ?full] by (simp add: dc)
  have dist: "distinct (map fst (shutdown_calls ?full))"
    by (simp add: sc all_providers_def comp_def)
  have d2: "distinct (map fst (shutdown_calls (take n ?full)))"
    by (rule shutdown_calls_take [OF dist])
  have d3: "drain_calls (take n ?full) \<noteq> [] \<longrightarrow> srv_shutdown_calls (take n ?full) = [Background]"
    unfolding full using drain_entered_after_srv_shutdown [OF _ rest] by blast
  have sig: "case run_sigint n env w of (fate, evs) \<Rightarrow>
          (fate = Killed) = ((n = 0 \<or> select_point < n) \<and> n < length ?full)
        \<and> (case fate of
             Completed r \<Rightarrow> r = fst (run env w) \<and> evs = ?full
           | Killed \<Rightarrow> evs = take n ?full)
        \<and> length (drain_calls evs) \<le> 1
        \<and> distinct (map fst (shutdown_calls evs))
        \<and> (drain_calls evs \<noteq> [] \<longrightarrow> srv_shutdown_calls evs = [Background])"
  proof (cases "n < length ?full \<and> \<not> armed (take n ?full)")
    case True
    then have "run_sigint n env w = (Killed, take n ?full)"
      by (simp add: run_sigint_def case_prod_beta Let_def)
    moreover from True armed have "(n = 0 \<or> select_point < n) \<and> n < length ?full"
      by auto
    ultimately show ?thesis using d1 d2 d3 by simp
  next
    case False
    then have r: "run_sigint n env w = (Completed (fst (run env w)), ?full)"
      by (auto simp add: run_sigint_def case_prod_beta Let_def)
    from False armed have "\<not> ((n = 0 \<or> select_point < n) \<and> n < length ?full)"
      by auto
    then show ?thesis unfolding r using dist by (simp add: dc ssc)
  qed
  from run_interrupt_order [OF assms, of w] sig show ?thesis
    by (simp add: case_prod_beta)
qed

text \<open>
  The drain does not run exactly once on every interrupt path: when a second SIGINT
  arrives right after \<open>stop()\<close>, the process ends before \<open>srv.Shutdown\<close> and before the
  shutdown closure, and no provider is shut down.
\<close>

theorem second_sigint_after_stop_skips_drain:
  "select_case env_clean = CtxDoneFirst (Err ''http: Server closed'')
   \<and> run_sigint 14 env_clean world0 =
       (Killed,
        [NotifyContext, SetTextMapPropagator newPropagator, Called NewTraceProvider,
        SetTracerProvider TracerProvider, Called NewMeterProvider,
        SetMeterProvider MeterProvider, Called NewPrometheusMeterProvider,
        Printf ''Prometheus meter provider initialized'' [],
        SetMeterProvider PromMeterProvider, Called NewLoggerProvider,
        SetLoggerProvider LoggerProvider, GoListenAndServe, SelectCtxDone, Stop])
   \<and> drain_calls (snd (run_sigint 14 env_clean world0)) = []
   \<and> srv_shutdown_calls (snd (run_sigint 14 env_clean world0)) = []
   \<and> shutdown_calls (snd (run_sigint 14 env_clean world0)) = []"
proof -
  have sel: "select_case env_clean = CtxDoneFirst (Err ''http: Server closed'')"
    by (simp add: env_clean_def)
  have killed: "run_sigint 14 env_clean world0 =
       (Killed,
        [NotifyContext, SetTextMapPropagator newPropagator, Called NewTraceProvider,
        SetTracerProvider TracerProvider, Called NewMeterProvider,
        SetMeterProvider MeterProvider, Called NewPrometheusMeterProvider,
        Printf ''Prometheus meter provider initialized'' [],
        SetMeterProvider PromMeterProvider, Called NewLoggerProvider,
        SetLoggerProvider LoggerProvider, GoListenAndServe, SelectCtxDone, Stop])"
    by (simp add: run_sigint_def case_prod_beta Let_def run_env_clean armed_def)
  show ?thesis
    unfolding killed using sel
    by (simp add: drain_calls_def srv_shutdown_calls_def shutdown_calls_def)
qed

text \<open>
  The amended statement at concrete runs: without a further signal, with one that is
  dropped, and with one that ends the process after the first provider's \<open>Shutdown\<close>.
\<close>

theorem run_interrupt_second_sigint_witness:
  "fst (run env_clean world0) = Return None
   \<and> new_events world0 (snd (run env_clean world0)) =
       [NotifyContext, SetTextMapPropagator newPropagator, Called NewTraceProvider,
        SetTracerProvider TracerProvider, Called NewMeterProvider,
        SetMeterProvider MeterProvider, Called NewPrometheusMeterProvider,
        Printf ''Prometheus meter provider initialized'' [],
        SetMeterProvider PromMeterProvider, Called NewLoggerProvider,
        SetLoggerProvider LoggerProvider, GoListenAndServe, SelectCtxDone, Stop,
        SrvShutdown Background None, ShutdownCalled Background,
        ProviderShutdown TracerProvider Background None,
        ProviderShutdown MeterProvider Background None,
        ProviderShutdown PromMeterProvider Background None,
        ProviderShutdown LoggerProvider Background None, Stop]
   \<and> srvErr (snd (run env_clean world0)) = [Err ''http: Server closed'']
   \<and> run_sigint 13 env_clean world0 =
       (Completed (Return None), new_events world0 (snd (run env_clean world0)))
   \<and> run_sigint 17 env_clean world0 =
       (Killed,
        [NotifyContext, SetTextMapPropagator newPropagator, Called NewTraceProvider,
        SetTracerProvider TracerProvider, Called NewMeterProvider,
        SetMeterProvider MeterProvider, Called NewPrometheusMeterProvider,
        Printf ''Prometheus meter provider initialized'' [],
        SetMeterProvider PromMeterProvider, Called NewLoggerProvider,
        SetLoggerProvider LoggerProvider, GoListenAndServe, SelectCtxDone, Stop,
        SrvShutdown Background None, ShutdownCalled Background,
        ProviderShutdown TracerProvider Background None])
   \<and> drain_calls (snd (run_sigint 17 env_clean world0)) = [Background]
   \<and> srv_shutdown_calls (snd (run_sigint 17 env_clean world0)) = [Background]"
proof -
  have sel: "select_case env_clean = CtxDoneFirst (Err ''http: Server closed'')"
    by (simp add: env_clean_def)
  have srv: "srv_Shutdown env_clean Background = None"
    by (simp add: env_clean_def)
  have s13: "run_sigint 13 env_clean world0 =
       (Completed (Return None), new_events world0 (snd (run env_clean world0)))"
    by (simp add: run_sigint_def case_prod_beta Let_def run_env_clean armed_def)
  have s17: "run_sigint 17 env_clean world0 =
       (Killed,
        [NotifyContext, SetTextMapPropagator newPropagator, Called NewTraceProvider,
        SetTracerProvider TracerProvider, Called NewMeterProvider,
        SetMeterProvider MeterProvider, Called NewPrometheusMeterProvider,
        Printf ''Prometheus meter provider initialized'' [],
        SetMeterProvider PromMeterProvider, Called NewLoggerProvider,
        SetLoggerProvider LoggerProvider, GoListenAndServe, SelectCtxDone, Stop,
        SrvShutdown Background None, ShutdownCalled Background,
        ProviderShutdown TracerProvider Background None])"
    by (simp add: run_sigint_def case_prod_beta Let_def run_env_clean armed_def)
  from run_interrupt_second_sigint [OF env_clean_ok sel, where w = world0 and n = 17]
  show ?thesis
    by (simp add: case_prod_beta run_env_clean srv s13 s17 drain_calls_def srv_shutdown_calls_def)
qed

text \<open>
  C5. After a successful setup, when the listener's error \<open>e\<close> arrives before the signal
  context is done: \<open>srv.Shutdown\<close> is never called, the shutdown closure is entered
  exactly once (with the background context) and calls each of the four providers'
  \<open>Shutdown\<close> once, and \<open>run\<close> returns a non-nil error that wraps \<open>e\<close> first and then the
  errors of the drain; when the drain reports nothing it is the join of \<open>e\<close> alone.
\<close>

theorem run_listener_error_path:
  assumes "setup_ok env" and "select_case env = SrvErrFirst e"
  shows "case run env w of (res, w') \<Rightarrow>
       srv_shutdown_calls (new_events w w') = []
     \<and> drain_calls (new_events w w') = [Background]
     \<and> shutdown_calls (new_events w w') = map (\<lambda>p. (p, Background)) all_providers
     \<and> (case res of
          Panic \<Rightarrow> False
        | Return err \<Rightarrow>
            err \<noteq> None
          \<and> error_leaves err =
              leaves e @ concat (map error_leaves (shutdown_results (new_events w w')))
          \<and> (list_all (\<lambda>x. x = None) (shutdown_results (new_events w w')) \<longrightarrow>
               err = Some (joinError [e])))"
  unfolding run_listener_error [OF assms]
  by (simp add: new_events_def obs_append obs_run_logs obs_Stop obs_range errors_Join_Some_ex
      error_leaves_Join2 error_leaves_simps error_leaves_drain_result
      drain_result_None_iff [symmetric] errors_Join_Some_None del: range_log.simps(2))

text \<open>
  The same at a concrete run.
\<close>

theorem run_listener_error_path_witness:
  "fst (run env_bind_fails world0) =
     Return (Some (joinError [Err ''listen tcp :8080: bind: address already in use'',
        joinError [joinError [joinError [joinError [Err ''trace flush failed'']]],
                   Err ''log flush failed'']]))
   \<and> srv_shutdown_calls (new_events world0 (snd (run env_bind_fails world0))) = []
   \<and> drain_calls (new_events world0 (snd (run env_bind_fails world0))) = [Background]
   \<and> shutdown_calls (new_events world0 (snd (run env_bind_fails world0))) =
       [(TracerProvider, Background), (MeterProvider, Background),
        (PromMeterProvider, Background), (LoggerProvider, Background)]"
proof -
  have sel: "select_case env_bind_fails =
      SrvErrFirst (Err ''listen tcp :8080: bind: address already in use'')"
    by (simp add: env_bind_fails_def)
  have res: "fst (run env_bind_fails world0) =
     Return (Some (joinError [Err ''listen tcp :8080: bind: address already in use'',
        joinError [joinError [joinError [joinError [Err ''trace flush failed'']]],
                   Err ''log flush failed'']]))"
    by (simp add: run_eval_defs env_bind_fails_def)
  from run_listener_error_path [OF env_bind_fails_ok sel, where w = world0] show ?thesis
    by (simp add: case_prod_beta res all_providers_def)
qed

text \<open>
  C6. After a successful \<open>setupOTelSDK\<close> the global meter-provider slot holds the
  Prometheus meter provider, which was installed after the push-based one; the push-based
  provider is not in the slot, but its \<open>Shutdown\<close> is registered once and a call of the
  shutdown closure calls it once.
\<close>

theorem last_meter_provider_wins:
  assumes "snd (fst (setupOTelSDK env ctx w)) = None"
  shows "case setupOTelSDK env ctx w of ((sd, err), w') \<Rightarrow>
       globalMeterProvider w' = Some PromMeterProvider
     \<and> globalMeterProvider w' \<noteq> Some MeterProvider
     \<and> meter_installs (new_events w w') = [MeterProvider, PromMeterProvider]
     \<and> count_list (shutdownFuncs w') MeterProvider = 1
     \<and> count_list (map fst (shutdown_calls (new_events w' (snd (shutdown env ctx' w')))))
          MeterProvider = 1"
proof -
  from assms have "setup_ok env" by (simp add: setup_err_None_iff)
  then have ok: "exporter_New env Stdouttrace = None" "exporter_New env Stdoutmetric = None"
    "exporter_New env Prometheus = None" "exporter_New env Stdoutlog = None"
    by (simp_all add: setup_ok_iff)
  show ?thesis
    unfolding setup_succeeds [OF ok]
    by (simp add: new_events_def meter_installs_setup_log shutdown_eq obs_Cons [of _ "range_log _ _ _ _"]
        obs_single obs_range del: range_log.simps(2))
qed

text \<open>
  The same at a concrete run.
\<close>

theorem last_meter_provider_wins_witness:
  "globalMeterProvider (snd (setupOTelSDK env_clean SignalCtx world0)) = Some PromMeterProvider
   \<and> meter_installs (new_events world0 (snd (setupOTelSDK env_clean SignalCtx world0))) =
       [MeterProvider, PromMeterProvider]
   \<and> shutdownFuncs (snd (setupOTelSDK env_clean SignalCtx world0)) =
       [TracerProvider, MeterProvider, PromMeterProvider, LoggerProvider]
   \<and> count_list (map fst (shutdown_calls
        (new_events (snd (setupOTelSDK env_clean SignalCtx world0))
           (snd (shutdown env_clean Background (snd (setupOTelSDK env_clean SignalCtx world0)))))))
        MeterProvider = 1"
proof -
  have ok: "snd (fst (setupOTelSDK env_clean SignalCtx world0)) = None"
    by (simp add: eval_defs env_clean_def)
  have fs: "shutdownFuncs (snd (setupOTelSDK env_clean SignalCtx world0)) =
       [TracerProvider, MeterProvider, PromMeterProvider, LoggerProvider]"
    by (simp add: eval_defs env_clean_def)
  from last_meter_provider_wins [OF ok, where ctx' = Background] show ?thesis
    by (simp add: case_prod_beta fs)
qed

text \<open>
  C7. The exit status of the process is 0 or 1. It is 0 exactly when every factory
  succeeds, the run ends by the interrupt (the listener reported no error first),
  \<open>srv.Shutdown\<close> returns nil and every \<open>Shutdown\<close> called during the run returns nil; in
  every other case (a factory fails, the listener fails, the server shutdown or the final
  drain reports an error) it is 1. With status 1 the last thing the process does is
  \<open>log.Fatalln\<close> of the joined error that \<open>run\<close> returned; with status 0 \<open>run\<close> returned
  nil and nothing was logged as fatal.
\<close>

theorem main_exit_status:
  "case main env w of (status, w') \<Rightarrow>
       (status = 0 \<or> status = 1)
     \<and> (status = 0) =
         (setup_ok env
          \<and> (case select_case env of SrvErrFirst e \<Rightarrow> False | CtxDoneFirst late \<Rightarrow> True)
          \<and> srv_Shutdown env Background = None
          \<and> list_all (\<lambda>x. x = None) (shutdown_results (new_events w w')))
     \<and> (status = 1 \<longrightarrow>
          (\<exists>e. fst (run env w) = Return (Some e)
             \<and> events w' = events (snd (run env w)) @ [Fatalln e]))
     \<and> (status = 0 \<longrightarrow> fst (run env w) = Return None \<and> no_Fatalln (new_events w w'))"
proof (cases "setup_ok env")
  case False
  then have "snd (fst (setupOTelSDK env SignalCtx (emit NotifyContext w))) \<noteq> None"
    by (simp add: setup_err_None_iff)
  then obtain e where e: "snd (fst (setupOTelSDK env SignalCtx (emit NotifyContext w))) = Some e"
    by blast
  show ?thesis
    by (simp add: main_def run_setup_fails [OF False] e events_emit False)
next
  case True
  show ?thesis
  proof (cases "select_case env")
    case (SrvErrFirst e)
    obtain y where y: "errors_Join [Some e,
        drain_result env Background all_providers (events w @ listener_log e)] = Some y"
      using errors_Join_Some_ex by blast
    show ?thesis
      by (simp add: main_def run_listener_error [OF True SrvErrFirst] y emit_def SrvErrFirst)
  next
    case (CtxDoneFirst late)
    let ?r = "errors_Join [srv_Shutdown env Background,
        drain_result env Background all_providers (events w @ interrupt_log env)]"
    let ?log = "interrupt_log env @
        range_log env Background all_providers (events w @ interrupt_log env) @ [Stop]"
    have run_fst: "fst (run env w) = Return ?r"
      and run_events: "events (snd (run env w)) = events w @ ?log"
      by (simp_all add: run_interrupt [OF True CtxDoneFirst])
    have results: "shutdown_results ?log =
        shutdown_results (range_log env Background all_providers (events w @ interrupt_log env))"
      by (simp add: obs_append obs_run_logs obs_Stop del: range_log.simps(2))
    have r_None: "?r = None \<longleftrightarrow> srv_Shutdown env Background = None \<and>
        list_all (\<lambda>x. x = None) (shutdown_results ?log)"
      unfolding results by (simp add: errors_Join2_None drain_result_None_iff)
    show ?thesis
    proof (cases ?r)
      case None
      have m: "main env w = (0, snd (run env w))"
        using run_fst None by (simp add: main_eq)
      show ?thesis
        unfolding m using r_None None run_fst
        by (simp add: new_events_def run_events True CtxDoneFirst no_Fatalln_append
            no_Fatalln_range_log no_Fatalln_logs del: range_log.simps(2) shutdown_results_append)
    next
      case (Some y)
      have m: "main env w = (1, emit (Fatalln y) (snd (run env w)))"
        using run_fst Some by (simp add: main_eq)
      have "shutdown_results [Fatalln y] = []"
        by (simp add: shutdown_results_def)
      then have fat: "shutdown_results (?log @ [Fatalln y]) = shutdown_results ?log"
        by (simp only: shutdown_results_append [of ?log] append_Nil2)
      have ev: "new_events w (emit (Fatalln y) (snd (run env w))) = ?log @ [Fatalln y]"
        by (simp add: new_events_def events_emit run_events)
      show ?thesis
        unfolding m using r_None Some run_fst
        by (simp add: ev fat events_emit True CtxDoneFirst del: range_log.simps(2) append_assoc)
    qed
  qed
qed

text \<open>
  The same at a concrete run.
\<close>

theorem main_exit_status_witness:
  "fst (main env_clean world0) = 0
   \<and> fst (run env_clean world0) = Return None
   \<and> fst (main env_prom_fails world0) = 1
   \<and> last (events (snd (main env_prom_fails world0))) =
       Fatalln (joinError [Err ''duplicate collector'', joinError [Err ''flush failed'']])
   \<and> fst (main env_bind_fails world0) = 1"
proof -
  have clean: "fst (main env_clean world0) = 0"
    by (simp add: run_eval_defs env_clean_def)
  have prom: "fst (main env_prom_fails world0) = 1"
    "last (events (snd (main env_prom_fails world0))) =
       Fatalln (joinError [Err ''duplicate collector'', joinError [Err ''flush failed'']])"
    by (simp_all add: run_eval_defs env_prom_fails_def)
  have bind: "fst (main env_bind_fails world0) = 1"
    by (simp add: run_eval_defs env_bind_fails_def)
  from main_exit_status [where env = env_clean and w = world0] clean
  have "fst (run env_clean world0) = Return None"
    by (simp add: case_prod_beta)
  with clean prom bind show ?thesis by simp
qed

text \<open>
  C8. After a successful setup the server built by \<open>run\<close> gives every listener the
  interrupt-derived context as base context, has a read timeout of one second and a write
  timeout of ten seconds (in nanoseconds, without overflow of the \<open>int64\<close>), and so a
  positive read timeout strictly below the write timeout.
\<close>

theorem run_server_configuration:
  assumes "setup_ok env"
  shows "case httpServer (snd (run env w)) of
       None \<Rightarrow> False
     | Some srv \<Rightarrow>
         (\<forall>l. BaseContext srv l = SignalCtx)
       \<and> sint (ReadTimeout srv) = 1000000000
       \<and> sint (WriteTimeout srv) = 10 * 1000000000
       \<and> 0 < sint (ReadTimeout srv)
       \<and> sint (ReadTimeout srv) < sint (WriteTimeout srv)"
proof (cases "select_case env")
  case (SrvErrFirst e)
  show ?thesis
    unfolding run_listener_error [OF assms SrvErrFirst]
    by (simp add: newServer_def time_Second_def)
next
  case (CtxDoneFirst late)
  show ?thesis
    unfolding run_interrupt [OF assms CtxDoneFirst]
    by (simp add: newServer_def time_Second_def)
qed

text \<open>
  The same at a concrete run.
\<close>

theorem run_server_configuration_witness:
  "map_option (\<lambda>srv. (BaseContext srv (Listener '':8080''), sint (ReadTimeout srv),
        sint (WriteTimeout srv))) (httpServer (snd (run env_clean world0))) =
     Some (SignalCtx, 1000000000, 10000000000)"
proof -
  from run_server_configuration [OF env_clean_ok, where w = world0] show ?thesis
    by (cases "httpServer (snd (run env_clean world0))") simp_all
qed

text \<open>
  C9. \<open>setupOTelSDK\<close> returns a non-nil shutdown function on every path. When it also
  returns an error, \<open>shutdownFuncs\<close> is already empty, and calling the returned function
  (with any context) does not panic, returns nil, enters the closure and calls no
  provider's \<open>Shutdown\<close>: over setup and this call together no provider is shut down
  twice.
\<close>

theorem failed_setup_shutdown_is_noop:
  "case setupOTelSDK env ctx w of ((sd, err), w') \<Rightarrow>
       sd \<noteq> None
     \<and> (err \<noteq> None \<longrightarrow>
          shutdownFuncs w' = [] \<and>
          (case invoke env sd ctx' w' of
             None \<Rightarrow> False
           | Some (r, w'') \<Rightarrow>
               r = None \<and> new_events w' w'' = [ShutdownCalled ctx']
             \<and> shutdown_calls (new_events w' w'') = []
             \<and> shutdown_calls (new_events w w'') = shutdown_calls (new_events w w')
             \<and> distinct (map fst (shutdown_calls (new_events w w'')))))"
proof (cases env rule: setup_cases)
  case (trace e)
  show ?thesis
    unfolding setup_fail_trace [OF trace]
    by (simp add: invoke_def shutdown_eq new_events_def obs_append obs_logs obs_single
        shutdown_results_def)
next
  case (metric e)
  show ?thesis
    unfolding setup_fail_metric [OF metric]
    by (simp add: invoke_def shutdown_eq new_events_def obs_append
        obs_Cons [of _ "range_log _ _ _ _"] obs_Cons [of _ "_ @ _"] obs_logs obs_single obs_range
        shutdown_results_def del: range_log.simps(2))
next
  case (prom e)
  show ?thesis
    unfolding setup_fail_prom [OF prom]
    by (simp add: invoke_def shutdown_eq new_events_def obs_append
        obs_Cons [of _ "range_log _ _ _ _"] obs_Cons [of _ "_ @ _"] obs_Cons [of _ "_ # _"]
        obs_logs obs_single obs_range
        shutdown_results_def del: range_log.simps(2))
next
  case (log e)
  show ?thesis
    unfolding setup_fail_log [OF log]
    by (simp add: invoke_def shutdown_eq new_events_def obs_append
        obs_Cons [of _ "range_log _ _ _ _"] obs_Cons [of _ "_ @ _"] obs_logs obs_single obs_range
        shutdown_results_def del: range_log.simps(2))
next
  case ok
  show ?thesis
    unfolding setup_succeeds [OF ok] by simp
qed

text \<open>
  The same at a concrete run.
\<close>

theorem failed_setup_shutdown_is_noop_witness:
  "fst (fst (setupOTelSDK env_prom_fails SignalCtx world0)) = Some ShutdownFunc
   \<and> error_leaves (snd (fst (setupOTelSDK env_prom_fails SignalCtx world0))) =
       [Err ''duplicate collector'', Err ''flush failed'']
   \<and> map_option fst (invoke env_prom_fails (fst (fst (setupOTelSDK env_prom_fails SignalCtx world0)))
        Background (snd (setupOTelSDK env_prom_fails SignalCtx world0))) = Some None
   \<and> map_option (\<lambda>r. shutdown_calls (new_events world0 (snd r)))
        (invoke env_prom_fails (fst (fst (setupOTelSDK env_prom_fails SignalCtx world0)))
           Background (snd (setupOTelSDK env_prom_fails SignalCtx world0))) =
       Some [(TracerProvider, SignalCtx), (MeterProvider, SignalCtx)]"
proof -
  have err: "snd (fst (setupOTelSDK env_prom_fails SignalCtx world0)) =
      Some (joinError [Err ''duplicate collector'', joinError [Err ''flush failed'']])"
    by (simp add: eval_defs env_prom_fails_def)
  have sd: "fst (fst (setupOTelSDK env_prom_fails SignalCtx world0)) = Some ShutdownFunc"
    by (simp add: eval_defs env_prom_fails_def)
  have calls: "shutdown_calls (new_events world0 (snd (setupOTelSDK env_prom_fails SignalCtx world0))) =
      [(TracerProvider, SignalCtx), (MeterProvider, SignalCtx)]"
    by (simp add: eval_defs env_prom_fails_def)
  from failed_setup_shutdown_is_noop
    [where env = env_prom_fails and ctx = SignalCtx and w = world0 and ctx' = Background]
  show ?thesis
    by (cases "invoke env_prom_fails (fst (fst (setupOTelSDK env_prom_fails SignalCtx world0)))
        Background (snd (setupOTelSDK env_prom_fails SignalCtx world0))")
      (auto simp add: case_prod_beta err calls sd error_leaves_simps)
qed

text \<open>
  C10. After a successful setup, on either exit path of \<open>run\<close>, the shutdown closure is
  entered once with the background context and passes it to all four providers; the
  server's \<open>Shutdown\<close> is called with the background context on the interrupt path and not
  at all on the listener-error path; the interrupt-derived context is passed to none of
  these calls.
\<close>

theorem run_cleanup_uses_background:
  assumes "setup_ok env"
  shows "case run env w of (res, w') \<Rightarrow>
       drain_calls (new_events w w') = [Background]
     \<and> shutdown_calls (new_events w w') = map (\<lambda>p. (p, Background)) all_providers
     \<and> srv_shutdown_calls (new_events w w') =
         (case select_case env of SrvErrFirst e \<Rightarrow> [] | CtxDoneFirst late \<Rightarrow> [Background])
     \<and> list_all (\<lambda>c. c \<noteq> SignalCtx)
         (drain_calls (new_events w w') @ srv_shutdown_calls (new_events w w') @
          map snd (shutdown_calls (new_events w w')))"
proof (cases "select_case env")
  case (SrvErrFirst e)
  show ?thesis
    unfolding run_listener_error [OF assms SrvErrFirst]
    by (simp add: new_events_def obs_append obs_run_logs obs_Stop obs_range SrvErrFirst
        all_providers_def del: range_log.simps(2))
next
  case (CtxDoneFirst late)
  show ?thesis
    unfolding run_interrupt [OF assms CtxDoneFirst]
    by (simp add: new_events_def obs_append obs_run_logs obs_Stop obs_range CtxDoneFirst
        all_providers_def del: range_log.simps(2))
qed

text \<open>
  The same at a concrete run.
\<close>

theorem run_cleanup_uses_background_witness:
  "drain_calls (new_events world0 (snd (run env_clean world0))) = [Background]
   \<and> srv_shutdown_calls (new_events world0 (snd (run env_clean world0))) = [Background]
   \<and> map snd (shutdown_calls (new_events world0 (snd (run env_clean world0)))) =
       [Background, Background, Background, Background]"
proof -
  have sel: "select_case env_clean = CtxDoneFirst (Err ''http: Server closed'')"
    by (simp add: env_clean_def)
  from run_cleanup_uses_background [OF env_clean_ok, where w = world0] show ?thesis
    by (simp add: case_prod_beta sel all_providers_def)
qed

end
